theory Spec2Isabelle
  imports Complex_Main
begin

section \<open>Common values\<close>

text \<open>
  Clock readings (\<open>datetime.utcnow()\<close>, \<open>datetime.utcnow().timestamp()\<close>,
  \<open>time.time()\<close>) are seconds since the epoch; a \<open>timedelta\<close> is a number of
  seconds. Every clock read inside one call is the same instant \<open>now\<close>, which the
  call receives as an argument.
\<close>

type_synonym timestamp = real

text \<open>
  The exceptions the modelled code raises or catches. A message built with an f-string
  keeps its fixed part; the timestamp it prints is the second argument.
\<close>

datatype exn =
    AuthenticationError string
  | AccountLockedError "timestamp option"
  | EmailNotVerifiedError string
  | TwoFactorError string "timestamp option"
  | ValueError string
  | TypeError
  | JWTError
  | ConnectionError string
  | OtherException string

text \<open>Python's \<open>int(x)\<close> on a float: truncation towards zero.\<close>

definition py_int :: "real \<Rightarrow> int" where
  "py_int x = (if 0 \<le> x then \<lfloor>x\<rfloor> else \<lceil>x\<rceil>)"

text \<open>Python's \<open>not v\<close> for an optional string: \<open>None\<close> and \<open>""\<close> are falsy.\<close>

definition falsy :: "string option \<Rightarrow> bool" where
  "falsy v = (case v of None \<Rightarrow> True | Some s \<Rightarrow> s = [])"

section \<open>Signed token codec (app/core/security.py)\<close>

record settings =
  ACCESS_TOKEN_EXPIRE_MINUTES :: int
  REFRESH_TOKEN_EXPIRE_DAYS :: int

text \<open>
  The claims dictionary handed to and returned by the JWT library. Each field is
  optional (\<open>payload.get\<close>) and has the type the source annotates it with.
\<close>

record payload =
  p_sub :: "string option"
  p_email :: "string option"
  p_roles :: "string list option"
  p_permissions :: "string list option"
  p_type :: "string option"
  p_jti :: "string option"
  p_exp :: "int option"
  p_iat :: "int option"

text \<open>
  The JWT library (\<open>jose.jwt\<close>) with \<open>settings.SECRET_KEY\<close> and
  \<open>settings.ALGORITHM\<close> fixed. It is not part of the repository, so it is a
  parameter: \<open>jwt_encode\<close> signs a payload or raises, \<open>jwt_decode\<close> checks the
  signature (and whatever else the library checks at the time of the call) and returns
  the payload or raises.
\<close>

record jwt_lib =
  jwt_encode :: "payload \<Rightarrow> exn + string"
  jwt_decode :: "timestamp \<Rightarrow> string \<Rightarrow> exn + payload"

record token_data =
  td_sub :: string
  td_email :: string
  td_roles :: "string list"
  td_permissions :: "string list"
  td_token_type :: string
  td_exp :: int
  td_iat :: int
  td_jti :: "string option"

text \<open>
  \<open>expire\<close> of \<open>create_access_token\<close>: \<open>if expires_delta:\<close> is false for
  \<open>None\<close> and for a zero \<open>timedelta\<close>, and then the configured lifetime is used.
\<close>

definition access_expire :: "settings \<Rightarrow> timestamp \<Rightarrow> real option \<Rightarrow> timestamp" where
  "access_expire st now expires_delta =
     (case expires_delta of
        None \<Rightarrow> now + of_int (ACCESS_TOKEN_EXPIRE_MINUTES st * 60)
      | Some d \<Rightarrow>
          if d \<noteq> 0 then now + d
          else now + of_int (ACCESS_TOKEN_EXPIRE_MINUTES st * 60))"

text \<open>\<open>to_encode\<close> of \<open>create_access_token\<close>.\<close>

definition access_claims ::
  "settings \<Rightarrow> timestamp \<Rightarrow> string \<Rightarrow> string \<Rightarrow> string list \<Rightarrow> string list \<Rightarrow>
   real option \<Rightarrow> payload" where
  "access_claims st now user_id email roles permissions expires_delta =
     \<lparr>p_sub = Some user_id, p_email = Some email, p_roles = Some roles,
      p_permissions = Some permissions, p_type = Some ''access'', p_jti = None,
      p_exp = Some (py_int (access_expire st now expires_delta)),
      p_iat = Some (py_int now)\<rparr>"

definition create_access_token ::
  "settings \<Rightarrow> jwt_lib \<Rightarrow> timestamp \<Rightarrow> string \<Rightarrow> string \<Rightarrow> string list \<Rightarrow> string list \<Rightarrow>
   real option \<Rightarrow> exn + string" where
  "create_access_token st lib now user_id email roles permissions expires_delta =
     (case jwt_encode lib (access_claims st now user_id email roles permissions expires_delta) of
        Inr encoded_jwt \<Rightarrow> Inr encoded_jwt
      | Inl e \<Rightarrow> Inl (ValueError ''Failed to create access token''))"

definition refresh_expire :: "settings \<Rightarrow> timestamp \<Rightarrow> real option \<Rightarrow> timestamp" where
  "refresh_expire st now expires_delta =
     (case expires_delta of
        None \<Rightarrow> now + of_int (REFRESH_TOKEN_EXPIRE_DAYS st * 86400)
      | Some d \<Rightarrow>
          if d \<noteq> 0 then now + d
          else now + of_int (REFRESH_TOKEN_EXPIRE_DAYS st * 86400))"

text \<open>\<open>to_encode\<close> of \<open>create_refresh_token\<close>; \<open>token_id\<close> is what
  \<open>generate_token_id()\<close> returned.\<close>

definition refresh_claims ::
  "settings \<Rightarrow> timestamp \<Rightarrow> string \<Rightarrow> string \<Rightarrow> real option \<Rightarrow> payload" where
  "refresh_claims st now token_id user_id expires_delta =
     \<lparr>p_sub = Some user_id, p_email = None, p_roles = None, p_permissions = None,
      p_type = Some ''refresh'', p_jti = Some token_id,
      p_exp = Some (py_int (refresh_expire st now expires_delta)),
      p_iat = Some (py_int now)\<rparr>"

definition create_refresh_token ::
  "settings \<Rightarrow> jwt_lib \<Rightarrow> timestamp \<Rightarrow> string \<Rightarrow> string \<Rightarrow> real option \<Rightarrow>
   exn + (string \<times> string)" where
  "create_refresh_token st lib now token_id user_id expires_delta =
     (case jwt_encode lib (refresh_claims st now token_id user_id expires_delta) of
        Inr encoded_jwt \<Rightarrow> Inr (encoded_jwt, token_id)
      | Inl e \<Rightarrow> Inl (ValueError ''Failed to create refresh token''))"

text \<open>
  \<open>verify_token\<close>: every exception of the body is caught and turned into \<open>None\<close>
  (\<open>except JWTError\<close>, \<open>except Exception\<close>), so the result is an option.
\<close>

definition verify_token :: "jwt_lib \<Rightarrow> timestamp \<Rightarrow> string \<Rightarrow> string \<Rightarrow> token_data option" where
  "verify_token lib now token expected_type =
     (case jwt_decode lib now token of
        Inl e \<Rightarrow> None
      | Inr pl \<Rightarrow>
          if falsy (p_sub pl) \<or> falsy (p_type pl) \<or> p_exp pl = None \<or> p_iat pl = None
          then None
          else
            (let sub = the (p_sub pl); token_type = the (p_type pl);
                 exp = the (p_exp pl); iat = the (p_iat pl)
             in if token_type \<noteq> expected_type then None
                else if now > of_int exp then None
                else if expected_type = ''access'' then
                  (let email = (case p_email pl of None \<Rightarrow> [] | Some e \<Rightarrow> e);
                       roles = (case p_roles pl of None \<Rightarrow> [] | Some r \<Rightarrow> r);
                       permissions = (case p_permissions pl of None \<Rightarrow> [] | Some r \<Rightarrow> r)
                   in if email = [] then None
                      else Some \<lparr>td_sub = sub, td_email = email, td_roles = roles,
                                 td_permissions = permissions, td_token_type = token_type,
                                 td_exp = exp, td_iat = iat, td_jti = None\<rparr>)
                else if expected_type = ''refresh'' then
                  (if falsy (p_jti pl) then None
                   else Some \<lparr>td_sub = sub, td_email = [], td_roles = [],
                              td_permissions = [], td_token_type = token_type,
                              td_exp = exp, td_iat = iat, td_jti = p_jti pl\<rparr>)
                else None))"

text \<open>
  A library instance for concrete evaluations: it knows one access payload and one
  refresh payload, signs them as two fixed strings and decodes exactly these strings.
\<close>

definition two_token_lib :: "payload \<Rightarrow> payload \<Rightarrow> jwt_lib" where
  "two_token_lib pa pr =
     \<lparr>jwt_encode = (\<lambda>q. if q = pa then Inr ''access.jwt''
                          else if q = pr then Inr ''refresh.jwt''
                          else Inl (OtherException ''unsupported claims'')),
      jwt_decode = (\<lambda>now t. if t = ''access.jwt'' then Inr pa
                              else if t = ''refresh.jwt'' then Inr pr
                              else Inl JWTError)\<rparr>"

definition settings0 :: settings where
  "settings0 = \<lparr>ACCESS_TOKEN_EXPIRE_MINUTES = 15, REFRESH_TOKEN_EXPIRE_DAYS = 30\<rparr>"

section \<open>Sliding-window rate limiter (app/middleware/rate_limiter.py)\<close>

text \<open>
  The counter store. Each key holds a Redis sorted set; \<open>check_rate_limit\<close> only ever
  adds the member \<open>str(now)\<close> with score \<open>now\<close>, so an element of a bucket is
  identified with its score and a bucket is the list of its scores (the order of the
  list is immaterial: the oldest element is computed on reading). An absent key is the
  empty set. \<open>deadlines\<close> is the instant set by \<open>EXPIRE\<close> at which the key is
  deleted; the store reads the same clock as the caller.
\<close>

record redis =
  zsets :: "string \<Rightarrow> real list"
  deadlines :: "string \<Rightarrow> timestamp option"

definition live :: "redis \<Rightarrow> timestamp \<Rightarrow> string \<Rightarrow> real list" where
  "live r now key =
     (case deadlines r key of
        None \<Rightarrow> zsets r key
      | Some d \<Rightarrow> if d \<le> now then [] else zsets r key)"

text \<open>\<open>ZREMRANGEBYSCORE key lo hi\<close>: both bounds are inclusive.\<close>

definition zremrangebyscore :: "real list \<Rightarrow> real \<Rightarrow> real \<Rightarrow> real list" where
  "zremrangebyscore z lo hi = filter (\<lambda>s. \<not> (lo \<le> s \<and> s \<le> hi)) z"

definition zcard :: "real list \<Rightarrow> int" where
  "zcard z = int (length z)"

text \<open>\<open>ZADD key {str(now): now}\<close>: a member that is already there is not added twice.\<close>

definition zadd :: "real list \<Rightarrow> real \<Rightarrow> real list" where
  "zadd z s = (if s \<in> set z then z else z @ [s])"

text \<open>\<open>ZRANGE key 0 0 WITHSCORES\<close>: the element of lowest score, if any.\<close>

fun zrange_first :: "real list \<Rightarrow> real option" where
  "zrange_first [] = None"
| "zrange_first (x # xs) =
     (case zrange_first xs of None \<Rightarrow> Some x | Some y \<Rightarrow> Some (min x y))"

text \<open>
  The pipeline of \<open>check_rate_limit\<close>, executed as one transaction: trim, count, add,
  set the expiry. The result is \<open>results[1]\<close>, the count before the addition.
\<close>

definition pipeline_execute ::
  "redis \<Rightarrow> timestamp \<Rightarrow> string \<Rightarrow> real \<Rightarrow> int \<Rightarrow> int \<times> redis" where
  "pipeline_execute r now key window_start window =
     (let z1 = zremrangebyscore (live r now key) 0 window_start;
          request_count = zcard z1;
          z2 = zadd z1 now
      in (request_count,
          r\<lparr>zsets := (zsets r)(key := z2),
            deadlines := (deadlines r)(key := Some (now + of_int window))\<rparr>))"

record rate_limiter =
  has_client :: bool
  enabled :: bool

datatype log_level = Warning | Error

text \<open>\<open>sub in s\<close> on strings.\<close>

fun contains :: "string \<Rightarrow> string \<Rightarrow> bool" where
  "contains sub [] = (sub = [])"
| "contains sub (c # cs) = (take (length sub) (c # cs) = sub \<or> contains sub cs)"

text \<open>\<open>str(e)\<close>.\<close>

fun exn_str :: "exn \<Rightarrow> string" where
  "exn_str (AuthenticationError m) = m"
| "exn_str (AccountLockedError t) = ''Account is locked until''"
| "exn_str (EmailNotVerifiedError m) = m"
| "exn_str (TwoFactorError m t) = m"
| "exn_str (ValueError m) = m"
| "exn_str TypeError = ''unsupported operand type(s)''"
| "exn_str JWTError = ''JWTError''"
| "exn_str (ConnectionError m) = m"
| "exn_str (OtherException m) = m"

text \<open>
  The two \<open>except\<close> clauses of \<open>check_rate_limit\<close>: the built-in
  \<open>ConnectionError\<close>, then any other exception, told apart by its message. Both end
  in \<open>return True, limit, 0\<close>.
\<close>

definition on_store_exception ::
  "rate_limiter \<Rightarrow> redis \<Rightarrow> exn \<Rightarrow> int \<Rightarrow>
   (bool \<times> int \<times> int) \<times> rate_limiter \<times> redis \<times> (log_level \<times> string) list" where
  "on_store_exception rl r e limit =
     (case e of
        ConnectionError m \<Rightarrow>
          ((True, limit, 0), rl\<lparr>enabled := False\<rparr>, r,
           [(Warning, ''Redis connection failed - disabling rate limiting'')])
      | _ \<Rightarrow>
          if contains ''Connection'' (exn_str e) \<or> contains ''connection'' (exn_str e)
          then ((True, limit, 0), rl\<lparr>enabled := False\<rparr>, r,
                [(Warning, ''Redis connection issue - disabling rate limiting'')])
          else ((True, limit, 0), rl, r, [(Error, ''Rate limit check failed'')]))"

text \<open>
  \<open>check_rate_limit\<close>. The store is reached twice, by \<open>pipe.execute()\<close> and by
  \<open>zrange\<close>; \<open>exec_fault\<close> and \<open>zrange_fault\<close> say what each call raises, if
  anything. A pipeline that raises leaves the store as it was. The result is the
  returned triple, the limiter, the store and the log records written.
\<close>

definition check_rate_limit ::
  "rate_limiter \<Rightarrow> redis \<Rightarrow> timestamp \<Rightarrow> exn option \<Rightarrow> exn option \<Rightarrow> string \<Rightarrow> int \<Rightarrow> int \<Rightarrow>
   (bool \<times> int \<times> int) \<times> rate_limiter \<times> redis \<times> (log_level \<times> string) list" where
  "check_rate_limit rl r now exec_fault zrange_fault key limit window =
     (if \<not> enabled rl \<or> \<not> has_client rl then ((True, limit, 0), rl, r, [])
      else
        (case exec_fault of
           Some e \<Rightarrow> on_store_exception rl r e limit
         | None \<Rightarrow>
             (let window_start = now - of_int window;
                  res = pipeline_execute r now key window_start window;
                  request_count = fst res;
                  r' = snd res
              in if request_count \<ge> limit then
                   (case zrange_fault of
                      Some e \<Rightarrow> on_store_exception rl r' e limit
                    | None \<Rightarrow>
                        (let reset_time =
                               (case zrange_first (live r' now key) of
                                  Some oldest \<Rightarrow> py_int (oldest + of_int window)
                                | None \<Rightarrow> py_int (now + of_int window))
                         in ((False, 0, reset_time), rl, r', [])))
                 else
                   ((True, limit - request_count - 1, py_int (now + of_int window)),
                    rl, r', []))))"

section \<open>Accounts (app/models/user.py)\<close>

record role =
  role_name :: string
  role_permissions :: "(string \<times> string) list"

record user =
  u_id :: string
  u_email :: string
  hashed_password :: "string option"
  first_name :: string
  last_name :: string
  is_active :: bool
  is_verified :: bool
  totp_secret :: "string option"
  two_factor_enabled :: bool
  two_factor_verified_at :: "timestamp option"
  backup_codes :: "string option"
  two_factor_recovery_codes_used :: int
  failed_login_attempts :: int
  locked_until :: "timestamp option"
  failed_2fa_attempts :: int
  created_at :: timestamp
  last_login :: "timestamp option"
  u_roles :: "role list"

text \<open>The property \<open>User.is_locked\<close>, read at time \<open>now\<close>.\<close>

definition is_locked :: "timestamp \<Rightarrow> user \<Rightarrow> bool" where
  "is_locked now u = (case locked_until u of None \<Rightarrow> False | Some t \<Rightarrow> now < t)"

text \<open>\<open>User.get_permissions\<close>; the source builds a set, whose order is not fixed.\<close>

definition get_permissions :: "user \<Rightarrow> string list" where
  "get_permissions u =
     remdups (concat (map (\<lambda>r. map (\<lambda>(res, act). res @ '':'' @ act) (role_permissions r))
                          (u_roles u)))"

section \<open>Two-factor engine (app/services/two_factor_service.py)\<close>

text \<open>
  The libraries the service calls, as parameters: \<open>pwd_context.verify\<close> of passlib
  (\<open>None\<close> when it raises), \<open>pyotp.TOTP(secret).verify(code, valid_window=1)\<close> at the
  time of the call (\<open>None\<close> when it raises), and the Fernet cipher composed with the
  JSON encoding of the list of hashed codes (\<open>cipher_decrypt\<close> is \<open>None\<close> when
  decryption or \<open>json.loads\<close> raises).
\<close>

record crypto =
  pwd_context_verify :: "string \<Rightarrow> string \<Rightarrow> bool option"
  totp_verify :: "string \<Rightarrow> string \<Rightarrow> timestamp \<Rightarrow> bool option"
  cipher_encrypt :: "string option list \<Rightarrow> string"
  cipher_decrypt :: "string \<Rightarrow> string option list option"

text \<open>\<open>verify_password\<close> of app/core/security.py.\<close>

definition verify_password :: "crypto \<Rightarrow> string \<Rightarrow> string \<Rightarrow> bool" where
  "verify_password env plain_password hashed =
     (case pwd_context_verify env plain_password hashed of Some b \<Rightarrow> b | None \<Rightarrow> False)"

definition verify_totp :: "crypto \<Rightarrow> timestamp \<Rightarrow> string \<Rightarrow> string \<Rightarrow> bool" where
  "verify_totp env now secret code =
     (case totp_verify env secret code now of Some b \<Rightarrow> b | None \<Rightarrow> False)"

definition MAX_2FA_ATTEMPTS :: int where
  "MAX_2FA_ATTEMPTS = 5"

definition LOCKOUT_DURATION :: real where
  "LOCKOUT_DURATION = 300"

text \<open>
  The test of the loop of \<open>_verify_backup_code\<close>,
  \<open>hashed_code and verify_password(code, hashed_code)\<close>: the slot is neither null nor
  empty, and its hash verifies the code.
\<close>

definition slot_ok :: "crypto \<Rightarrow> string \<Rightarrow> string option \<Rightarrow> bool" where
  "slot_ok env code h =
     (case h of
        None \<Rightarrow> False
      | Some hashed_code \<Rightarrow> hashed_code \<noteq> [] \<and> verify_password env code hashed_code)"

text \<open>The loop itself: the index of the first slot that passes the test.\<close>

fun first_match :: "crypto \<Rightarrow> string \<Rightarrow> string option list \<Rightarrow> nat option" where
  "first_match env code [] = None"
| "first_match env code (h # hs) =
     (if slot_ok env code h then Some 0
      else map_option Suc (first_match env code hs))"

text \<open>
  \<open>_verify_backup_code\<close>. The result is the returned flag and the user row as
  committed. Encryption and the commit are taken not to raise.
\<close>

definition verify_backup_code :: "crypto \<Rightarrow> user \<Rightarrow> string \<Rightarrow> bool \<times> user" where
  "verify_backup_code env u code =
     (case backup_codes u of
        None \<Rightarrow> (False, u)
      | Some stored \<Rightarrow>
          if stored = [] then (False, u)
          else
            (case cipher_decrypt env stored of
               None \<Rightarrow> (False, u)
             | Some hashed_codes \<Rightarrow>
                 (case first_match env code hashed_codes of
                    None \<Rightarrow> (False, u)
                  | Some i \<Rightarrow>
                      (True,
                       u\<lparr>backup_codes := Some (cipher_encrypt env (hashed_codes[i := None])),
                         two_factor_recovery_codes_used :=
                           two_factor_recovery_codes_used u + 1\<rparr>))))"

text \<open>
  The lockout check at the head of \<open>verify_2fa_code\<close>: an exception, or the user with
  the counter reset once \<open>two_factor_verified_at + LOCKOUT_DURATION\<close> is reached.
  Adding a \<open>timedelta\<close> to \<open>None\<close> raises \<open>TypeError\<close>.
\<close>

definition lockout_check :: "timestamp \<Rightarrow> user \<Rightarrow> exn + user" where
  "lockout_check now u =
     (if failed_2fa_attempts u \<ge> MAX_2FA_ATTEMPTS then
        (case two_factor_verified_at u of
           None \<Rightarrow> Inl TypeError
         | Some verified_at \<Rightarrow>
             (let lockout_time = verified_at + LOCKOUT_DURATION
              in if now < lockout_time
                 then Inl (TwoFactorError ''Too many failed attempts. Try again after''
                            (Some lockout_time))
                 else Inr (u\<lparr>failed_2fa_attempts := 0\<rparr>)))
      else Inr u)"

definition verify_2fa_code ::
  "crypto \<Rightarrow> timestamp \<Rightarrow> user \<Rightarrow> string \<Rightarrow> bool \<Rightarrow> exn + (bool \<times> user)" where
  "verify_2fa_code env now u code is_backup =
     (if \<not> two_factor_enabled u
      then Inl (TwoFactorError ''Two-factor authentication is not enabled'' None)
      else
        (case lockout_check now u of
           Inl e \<Rightarrow> Inl e
         | Inr u1 \<Rightarrow>
             (let res =
                    (if is_backup then verify_backup_code env u1 code
                     else
                       (case totp_secret u1 of
                          None \<Rightarrow> (False, u1)
                        | Some secret \<Rightarrow>
                            if secret = [] then (False, u1)
                            else (verify_totp env now secret code, u1)));
                  verified = fst res;
                  u2 = snd res
              in if verified then Inr (True, u2\<lparr>failed_2fa_attempts := 0\<rparr>)
                 else Inr (False,
                           u2\<lparr>failed_2fa_attempts := failed_2fa_attempts u2 + 1\<rparr>))))"

section \<open>Session orchestrator (app/services/auth_service.py)\<close>

text \<open>
  The tables the service reads and writes. \<open>logout_user\<close> writes \<open>revoked_at\<close>, so
  the row has that field. A statement sent to the database is taken not to raise.
\<close>

record refresh_token_row =
  rt_token_id :: string
  rt_user_id :: string
  rt_expires_at :: timestamp
  rt_is_revoked :: bool
  rt_revoked_at :: "timestamp option"
  rt_used_at :: "timestamp option"

record user_session =
  us_session_id :: string
  us_user_id :: string
  us_is_active :: bool
  us_ended_at :: "timestamp option"

record db =
  users :: "user list"
  refresh_tokens :: "refresh_token_row list"
  user_sessions :: "user_session list"

text \<open>\<open>Result.scalar_one_or_none()\<close>: more than one row raises.\<close>

definition scalar_one_or_none :: "'a list \<Rightarrow> exn + 'a option" where
  "scalar_one_or_none rows =
     (case rows of
        [] \<Rightarrow> Inr None
      | [x] \<Rightarrow> Inr (Some x)
      | x # y # zs \<Rightarrow>
          Inl (OtherException ''Multiple rows were found when one or none was required''))"

text \<open>\<open>update(User).where(User.id == uid).values(...)\<close>.\<close>

definition update_users :: "db \<Rightarrow> string \<Rightarrow> (user \<Rightarrow> user) \<Rightarrow> db" where
  "update_users d uid f = d\<lparr>users := map (\<lambda>r. if u_id r = uid then f r else r) (users d)\<rparr>"

text \<open>The properties \<open>RefreshToken.is_expired\<close> and \<open>RefreshToken.is_valid\<close>.\<close>

definition rt_is_expired :: "timestamp \<Rightarrow> refresh_token_row \<Rightarrow> bool" where
  "rt_is_expired now t = (now > rt_expires_at t)"

definition rt_is_valid :: "timestamp \<Rightarrow> refresh_token_row \<Rightarrow> bool" where
  "rt_is_valid now t = (\<not> rt_is_expired now t \<and> \<not> rt_is_revoked t)"

record user_response =
  ur_id :: string
  ur_email :: string
  ur_first_name :: string
  ur_last_name :: string
  ur_is_active :: bool
  ur_is_verified :: bool
  ur_roles :: "string list"
  ur_created_at :: timestamp
  ur_last_login :: "timestamp option"

text \<open>\<open>LoginResponse\<close> (app/schemas/auth.py); \<open>requires_2fa\<close> defaults to
  \<open>False\<close> and \<open>temp_token\<close> to \<open>None\<close>.\<close>

record login_response =
  access_token :: string
  refresh_token :: string
  token_type :: string
  expires_in :: int
  lr_user :: user_response
  requires_2fa :: bool
  temp_token :: "string option"

definition max_attempts :: int where
  "max_attempts = 5"

definition lockout_duration :: real where
  "lockout_duration = 30 * 60"

text \<open>
  \<open>_handle_failed_login\<close>: the statements it sends inside the caller's transaction.
  The counter it increments is the one of the user object the caller loaded.
\<close>

definition handle_failed_login :: "timestamp \<Rightarrow> db \<Rightarrow> user option \<Rightarrow> db" where
  "handle_failed_login now d user_opt =
     (case user_opt of
        None \<Rightarrow> d
      | Some u \<Rightarrow>
          (let new_attempts = failed_login_attempts u + 1
           in if new_attempts \<ge> max_attempts
              then update_users d (u_id u)
                     (\<lambda>r. r\<lparr>failed_login_attempts := new_attempts,
                             locked_until := Some (now + lockout_duration)\<rparr>)
              else update_users d (u_id u)
                     (\<lambda>r. r\<lparr>failed_login_attempts := new_attempts\<rparr>)))"

text \<open>
  The \<open>try\<close> block of \<open>authenticate_user\<close>: what it returns or raises, and the
  state of the open transaction at that point. \<open>token_id\<close> is the value
  \<open>generate_token_id()\<close> returns. The response is built from the user object as it was
  loaded. Storing the refresh token, the session and the audit log is commented out in
  the source.
\<close>

definition authenticate_try ::
  "settings \<Rightarrow> jwt_lib \<Rightarrow> crypto \<Rightarrow> timestamp \<Rightarrow> string \<Rightarrow> db \<Rightarrow> string \<Rightarrow> string \<Rightarrow>
   (exn + login_response) \<times> db" where
  "authenticate_try st lib env now token_id d email password =
     (case scalar_one_or_none (filter (\<lambda>u. u_email u = email) (users d)) of
        Inl e \<Rightarrow> (Inl e, d)
      | Inr None \<Rightarrow>
          (Inl (AuthenticationError ''Invalid email or password''),
           handle_failed_login now d None)
      | Inr (Some u) \<Rightarrow>
          if falsy (hashed_password u) then
            (Inl (AuthenticationError ''Invalid email or password''),
             handle_failed_login now d None)
          else if is_locked now u then (Inl (AccountLockedError (locked_until u)), d)
          else if \<not> verify_password env password (the (hashed_password u)) then
            (Inl (AuthenticationError ''Invalid email or password''),
             handle_failed_login now d (Some u))
          else if \<not> is_active u then
            (Inl (AuthenticationError ''Account is not active''),
             handle_failed_login now d (Some u))
          else
            (let d1 = (if failed_login_attempts u > 0
                       then update_users d (u_id u)
                              (\<lambda>r. r\<lparr>failed_login_attempts := 0, locked_until := None\<rparr>)
                       else d);
                 d2 = update_users d1 (u_id u) (\<lambda>r. r\<lparr>last_login := Some now\<rparr>);
                 permissions = [];
                 role_names = map role_name (u_roles u)
             in case create_access_token st lib now (u_id u) (u_email u) role_names
                       permissions None of
                  Inl e \<Rightarrow> (Inl e, d2)
                | Inr access_tok \<Rightarrow>
                    (case create_refresh_token st lib now token_id (u_id u) None of
                       Inl e \<Rightarrow> (Inl e, d2)
                     | Inr (refresh_token_jwt, refresh_token_id) \<Rightarrow>
                         (Inr \<lparr>access_token = access_tok,
                               refresh_token = refresh_token_jwt,
                               token_type = ''bearer'',
                               expires_in = ACCESS_TOKEN_EXPIRE_MINUTES st * 60,
                               lr_user =
                                 \<lparr>ur_id = u_id u, ur_email = u_email u,
                                  ur_first_name = first_name u, ur_last_name = last_name u,
                                  ur_is_active = is_active u, ur_is_verified = is_verified u,
                                  ur_roles = role_names, ur_created_at = created_at u,
                                  ur_last_login = last_login u\<rparr>,
                               requires_2fa = False,
                               temp_token = None\<rparr>,
                          d2))))"

text \<open>
  \<open>authenticate_user\<close>: the \<open>try\<close> block, then \<open>commit\<close> when it returned and
  \<open>rollback\<close> in both \<open>except\<close> clauses, the second of which turns any other
  exception into an \<open>AuthenticationError\<close>. The result is the outcome and the database
  after the call.
\<close>

definition authenticate_user ::
  "settings \<Rightarrow> jwt_lib \<Rightarrow> crypto \<Rightarrow> timestamp \<Rightarrow> string \<Rightarrow> db \<Rightarrow> string \<Rightarrow> string \<Rightarrow>
   (exn + login_response) \<times> db" where
  "authenticate_user st lib env now token_id d email password =
     (case authenticate_try st lib env now token_id d email password of
        (Inr response, d') \<Rightarrow> (Inr response, d')
      | (Inl (AuthenticationError m), d') \<Rightarrow> (Inl (AuthenticationError m), d)
      | (Inl (AccountLockedError t), d') \<Rightarrow> (Inl (AccountLockedError t), d)
      | (Inl (EmailNotVerifiedError m), d') \<Rightarrow> (Inl (EmailNotVerifiedError m), d)
      | (Inl e, d') \<Rightarrow> (Inl (AuthenticationError ''Authentication failed''), d))"

record refresh_response =
  rr_access_token :: string
  rr_token_type :: string
  rr_expires_in :: int

definition refresh_try ::
  "settings \<Rightarrow> jwt_lib \<Rightarrow> timestamp \<Rightarrow> db \<Rightarrow> string \<Rightarrow> (exn + refresh_response) \<times> db" where
  "refresh_try st lib now d refresh_tok =
     (case verify_token lib now refresh_tok ''refresh'' of
        None \<Rightarrow> (Inl (AuthenticationError ''Invalid refresh token''), d)
      | Some token_data \<Rightarrow>
          if falsy (td_jti token_data)
          then (Inl (AuthenticationError ''Invalid refresh token''), d)
          else
            (case scalar_one_or_none
                    (filter (\<lambda>t. rt_token_id t = the (td_jti token_data) \<and> \<not> rt_is_revoked t)
                       (refresh_tokens d)) of
               Inl e \<Rightarrow> (Inl e, d)
             | Inr None \<Rightarrow>
                 (Inl (AuthenticationError ''Refresh token is invalid or expired''), d)
             | Inr (Some db_token) \<Rightarrow>
                 if \<not> rt_is_valid now db_token
                 then (Inl (AuthenticationError ''Refresh token is invalid or expired''), d)
                 else
                   (case scalar_one_or_none
                           (filter (\<lambda>u. u_id u = rt_user_id db_token) (users d)) of
                      Inl e \<Rightarrow> (Inl e, d)
                    | Inr None \<Rightarrow>
                        (Inl (AuthenticationError ''User account is not active''), d)
                    | Inr (Some u) \<Rightarrow>
                        if \<not> is_active u
                        then (Inl (AuthenticationError ''User account is not active''), d)
                        else
                          (let d1 = d\<lparr>refresh_tokens :=
                                         map (\<lambda>t. if rt_token_id t = the (td_jti token_data)
                                                   then t\<lparr>rt_used_at := Some now\<rparr> else t)
                                           (refresh_tokens d)\<rparr>;
                               permissions = get_permissions u;
                               role_names = map role_name (u_roles u)
                           in case create_access_token st lib now (u_id u) (u_email u)
                                     role_names permissions None of
                                Inl e \<Rightarrow> (Inl e, d1)
                              | Inr new_access_token \<Rightarrow>
                                  (Inr \<lparr>rr_access_token = new_access_token,
                                        rr_token_type = ''bearer'',
                                        rr_expires_in = ACCESS_TOKEN_EXPIRE_MINUTES st * 60\<rparr>,
                                   d1)))))"

definition refresh_access_token ::
  "settings \<Rightarrow> jwt_lib \<Rightarrow> timestamp \<Rightarrow> db \<Rightarrow> string \<Rightarrow> (exn + refresh_response) \<times> db" where
  "refresh_access_token st lib now d refresh_tok =
     (case refresh_try st lib now d refresh_tok of
        (Inr response, d') \<Rightarrow> (Inr response, d')
      | (Inl (AuthenticationError m), d') \<Rightarrow> (Inl (AuthenticationError m), d)
      | (Inl e, d') \<Rightarrow> (Inl (AuthenticationError ''Token refresh failed''), d))"

text \<open>
  \<open>logout_user\<close>: with a token that verifies, every unrevoked refresh token of the
  subject is revoked and every active session of the subject is ended; otherwise nothing
  is sent to the database and the result is \<open>False\<close>.
\<close>

definition logout_user :: "jwt_lib \<Rightarrow> timestamp \<Rightarrow> db \<Rightarrow> string \<Rightarrow> bool \<times> db" where
  "logout_user lib now d access_tok =
     (case verify_token lib now access_tok ''access'' of
        Some token_data \<Rightarrow>
          (True,
           d\<lparr>refresh_tokens :=
                map (\<lambda>t. if rt_user_id t = td_sub token_data \<and> \<not> rt_is_revoked t
                          then t\<lparr>rt_is_revoked := True, rt_revoked_at := Some now\<rparr> else t)
                  (refresh_tokens d),
             user_sessions :=
                map (\<lambda>s. if us_user_id s = td_sub token_data \<and> us_is_active s
                          then s\<lparr>us_is_active := False, us_ended_at := Some now\<rparr> else s)
                  (user_sessions d)\<rparr>)
      | None \<Rightarrow> (False, d))"

text \<open>Concrete claims used in evaluations below.\<close>

definition ex_access_zero_ttl :: payload where
  "ex_access_zero_ttl = access_claims settings0 100 ''u1'' ''a@b.c'' [''user''] [] (Some 0)"

definition ex_access_neg_ttl :: payload where
  "ex_access_neg_ttl = access_claims settings0 100 ''u1'' ''a@b.c'' [''user''] [] (Some (- 1))"

definition ex_access_60 :: payload where
  "ex_access_60 = access_claims settings0 100 ''u1'' ''a@b.c'' [''user''] [] (Some 60)"

definition ex_access_no_email :: payload where
  "ex_access_no_email = access_claims settings0 100 ''u1'' [] [''user''] [] (Some 60)"

definition ex_access_no_sub :: payload where
  "ex_access_no_sub = access_claims settings0 100 [] ''a@b.c'' [''user''] [] (Some 60)"

definition ex_access_short_ttl :: payload where
  "ex_access_short_ttl =
     access_claims settings0 (201 / 2) ''u1'' ''a@b.c'' [''user''] [] (Some (1 / 4))"

definition ex_refresh :: payload where
  "ex_refresh = refresh_claims settings0 100 ''jti-1'' ''u1'' None"

text \<open>Concrete limiter and store states used in evaluations below.\<close>

definition ex_limiter :: rate_limiter where
  "ex_limiter = \<lparr>has_client = True, enabled = True\<rparr>"

definition ex_redis :: "real list \<Rightarrow> redis" where
  "ex_redis z = \<lparr>zsets = (\<lambda>k. [])(''k'' := z), deadlines = (\<lambda>k. None)\<rparr>"

definition ex_redis_after :: redis where
  "ex_redis_after =
     \<lparr>zsets = (\<lambda>k. [])(''k'' := [0, 1, 2]), deadlines = (\<lambda>k. None)(''k'' := Some 62)\<rparr>"

text \<open>
  Concrete libraries, accounts and databases used in evaluations below. In
  \<open>toy_crypto\<close> a hash is a three-character salt followed by the password, a TOTP code
  is valid when it is \<open>123456\<close>, and the cipher is a table of five lists of hashed
  codes and their ciphertexts.
\<close>

definition toy_table :: "(string \<times> string option list) list" where
  "toy_table =
     [(''c0'', [Some ''$1$AAAA-BBBB'', Some ''$2$CCCC-DDDD'']),
      (''c1'', [None, Some ''$2$CCCC-DDDD'']),
      (''c2'', [None, None]),
      (''d0'', [Some ''$1$AAAA-BBBB'', Some ''$2$AAAA-BBBB'']),
      (''d1'', [None, Some ''$2$AAAA-BBBB''])]"

definition toy_crypto :: crypto where
  "toy_crypto =
     \<lparr>pwd_context_verify = (\<lambda>plain hashed. Some (drop 3 hashed = plain)),
      totp_verify = (\<lambda>secret code now. Some (code = ''123456'')),
      cipher_encrypt = (\<lambda>hs. case find (\<lambda>(c, l). l = hs) toy_table of
                                 Some (c, l) \<Rightarrow> c | None \<Rightarrow> ''??''),
      cipher_decrypt = map_of toy_table\<rparr>"

definition ex_user :: user where
  "ex_user =
     \<lparr>u_id = ''u1'', u_email = ''a@b.c'', hashed_password = Some ''$1$Passw0rd!'',
      first_name = ''Ada'', last_name = ''Byron'', is_active = True, is_verified = True,
      totp_secret = Some ''JBSWY3DPEHPK3PXP'', two_factor_enabled = True,
      two_factor_verified_at = Some 0, backup_codes = Some ''c0'',
      two_factor_recovery_codes_used = 0, failed_login_attempts = 0, locked_until = None,
      failed_2fa_attempts = 0, created_at = 0, last_login = None,
      u_roles = [\<lparr>role_name = ''user'', role_permissions = []\<rparr>]\<rparr>"


definition ex_db :: db where
  "ex_db = \<lparr>users = [ex_user], refresh_tokens = [], user_sessions = []\<rparr>"

definition ex_login_lib :: jwt_lib where
  "ex_login_lib =
     two_token_lib (access_claims settings0 1000 ''u1'' ''a@b.c'' [''user''] [] None)
                   (refresh_claims settings0 1000 ''jti-1'' ''u1'' None)"

definition ex_login_response :: login_response where
  "ex_login_response =
     \<lparr>access_token = ''access.jwt'', refresh_token = ''refresh.jwt'', token_type = ''bearer'',
      expires_in = 900,
      lr_user = \<lparr>ur_id = ''u1'', ur_email = ''a@b.c'', ur_first_name = ''Ada'',
                 ur_last_name = ''Byron'', ur_is_active = True, ur_is_verified = True,
                 ur_roles = [''user''], ur_created_at = 0, ur_last_login = None\<rparr>,
      requires_2fa = False, temp_token = None\<rparr>"

definition ex_db_after_login :: db where
  "ex_db_after_login =
     \<lparr>users = [ex_user\<lparr>last_login := Some 1000\<rparr>], refresh_tokens = [], user_sessions = []\<rparr>"

definition ex_locked_user :: user where
  "ex_locked_user = ex_user\<lparr>failed_login_attempts := 5, locked_until := Some 1800\<rparr>"

definition ex_session_db :: db where
  "ex_session_db =
     \<lparr>users = [ex_user],
      refresh_tokens =
        [\<lparr>rt_token_id = ''jti-1'', rt_user_id = ''u1'', rt_expires_at = 2593000,
          rt_is_revoked = False, rt_revoked_at = None, rt_used_at = None\<rparr>],
      user_sessions =
        [\<lparr>us_session_id = ''s1'', us_user_id = ''u1'', us_is_active = True,
          us_ended_at = None\<rparr>]\<rparr>"


section \<open>Properties of the token codec\<close>

lemma py_int_neg_ttl:
  assumes "0 < t0" "d < 0" shows "of_int (py_int (t0 + d)) < t0"
proof (cases "0 \<le> t0 + d")
  case True
  then have e: "py_int (t0 + d) = \<lfloor>t0 + d\<rfloor>" by (simp add: py_int_def)
  have "of_int \<lfloor>t0 + d\<rfloor> \<le> t0 + d" by (rule of_int_floor_le)
  with assms show ?thesis unfolding e by linarith
next
  case False
  then have e: "py_int (t0 + d) = \<lceil>t0 + d\<rceil>" by (simp add: py_int_def)
  from False have "\<lceil>t0 + d\<rceil> \<le> 0" by (simp add: ceiling_le_zero)
  then have "(of_int \<lceil>t0 + d\<rceil> :: real) \<le> 0" by simp
  with assms show ?thesis unfolding e by linarith
qed


lemmas ex_claims_defs =
  ex_access_zero_ttl_def ex_access_neg_ttl_def ex_access_60_def ex_access_no_email_def
  ex_access_no_sub_def ex_access_short_ttl_def ex_refresh_def
  access_claims_def refresh_claims_def access_expire_def refresh_expire_def settings0_def

text \<open>
  C7 (as stated, refuted at zero remaining lifetime). A token issued with
  \<open>expires_delta = timedelta(0)\<close> at time 100 is given the configured 15 minutes and
  verifies at time 100; and a token whose \<open>exp\<close> is 1000 still verifies when the clock
  reads exactly 1000, since the check is \<open>now > exp\<close>.
\<close>

theorem verify_token_zero_ttl_accepted:
  "create_access_token settings0 (two_token_lib ex_access_zero_ttl ex_refresh) 100
       ''u1'' ''a@b.c'' [''user''] [] (Some 0) = Inr ''access.jwt'' \<and>
   p_exp ex_access_zero_ttl = Some 1000 \<and>
   verify_token (two_token_lib ex_access_zero_ttl ex_refresh) 100 ''access.jwt'' ''access''
     \<noteq> None \<and>
   verify_token (two_token_lib ex_access_zero_ttl ex_refresh) 1000 ''access.jwt'' ''access''
     \<noteq> None"
  by (simp add: create_access_token_def two_token_lib_def verify_token_def falsy_def
      py_int_def ex_claims_defs)

text \<open>
  C7 (amended). \<open>verify_token\<close> returns \<open>None\<close>, and never an exception, when the
  library rejects the token (bad signature, malformed string); when \<open>sub\<close> or
  \<open>type\<close> is missing or empty, \<open>type\<close> differs from the expected kind, \<open>exp\<close>
  or \<open>iat\<close> is missing, or the clock is strictly past \<open>exp\<close>; a token issued as
  access is rejected when checked as refresh and a token issued as refresh when checked
  as access; and a token issued with a negative lifetime (at a clock reading above 0) is
  rejected at issuance and at any later time.
\<close>

theorem verify_token_rejects:
  "(jwt_decode lib now token = Inl e \<longrightarrow> verify_token lib now token k = None) \<and>
   (jwt_decode lib now token = Inr pl \<and>
      (falsy (p_sub pl) \<or> falsy (p_type pl) \<or> p_type pl \<noteq> Some k \<or> p_exp pl = None \<or>
       p_iat pl = None \<or> (\<exists>x. p_exp pl = Some x \<and> now > of_int x))
      \<longrightarrow> verify_token lib now token k = None) \<and>
   (jwt_decode lib now token = Inr (access_claims st t0 user_id email roles perms d)
      \<longrightarrow> verify_token lib now token ''refresh'' = None) \<and>
   (jwt_decode lib now token = Inr (refresh_claims st t0 jti user_id d)
      \<longrightarrow> verify_token lib now token ''access'' = None) \<and>
   (jwt_decode lib now token = Inr (access_claims st t0 user_id email roles perms (Some ttl)) \<and>
      ttl < 0 \<and> 0 < t0 \<and> t0 \<le> now
      \<longrightarrow> verify_token lib now token ''access'' = None)"
proof (intro conjI impI)
  assume "jwt_decode lib now token = Inl e"
  then show "verify_token lib now token k = None" by (simp add: verify_token_def)
next
  assume "jwt_decode lib now token = Inr pl \<and>
      (falsy (p_sub pl) \<or> falsy (p_type pl) \<or> p_type pl \<noteq> Some k \<or> p_exp pl = None \<or>
       p_iat pl = None \<or> (\<exists>x. p_exp pl = Some x \<and> now > of_int x))"
  then show "verify_token lib now token k = None"
    by (auto simp: verify_token_def Let_def falsy_def split: option.splits)
next
  assume "jwt_decode lib now token = Inr (access_claims st t0 user_id email roles perms d)"
  then show "verify_token lib now token ''refresh'' = None"
    by (simp add: verify_token_def access_claims_def falsy_def)
next
  assume "jwt_decode lib now token = Inr (refresh_claims st t0 jti user_id d)"
  then show "verify_token lib now token ''access'' = None"
    by (simp add: verify_token_def refresh_claims_def falsy_def)
next
  assume h: "jwt_decode lib now token =
        Inr (access_claims st t0 user_id email roles perms (Some ttl)) \<and>
      ttl < 0 \<and> 0 < t0 \<and> t0 \<le> now"
  then have "of_int (py_int (t0 + ttl)) < now"
    using py_int_neg_ttl [of t0 ttl] by simp
  with h show "verify_token lib now token ''access'' = None"
    by (simp add: verify_token_def access_claims_def access_expire_def falsy_def Let_def)
qed

theorem verify_token_rejects_witness:
  "jwt_decode (two_token_lib ex_access_neg_ttl ex_refresh) 100 ''garbage'' = Inl JWTError \<and>
   verify_token (two_token_lib ex_access_neg_ttl ex_refresh) 100 ''garbage'' ''access'' = None \<and>
   jwt_decode (two_token_lib ex_access_neg_ttl ex_refresh) 100 ''refresh.jwt'' = Inr ex_refresh \<and>
   p_type ex_refresh \<noteq> Some ''access'' \<and>
   verify_token (two_token_lib ex_access_neg_ttl ex_refresh) 100 ''refresh.jwt'' ''access'' = None \<and>
   jwt_decode (two_token_lib ex_access_neg_ttl ex_refresh) 100 ''access.jwt'' =
     Inr (access_claims settings0 100 ''u1'' ''a@b.c'' [''user''] [] (Some (- 1))) \<and>
   verify_token (two_token_lib ex_access_neg_ttl ex_refresh) 100 ''access.jwt'' ''refresh'' = None \<and>
   (- 1 :: real) < 0 \<and> (0 :: real) < 100 \<and>
   verify_token (two_token_lib ex_access_neg_ttl ex_refresh) 100 ''access.jwt'' ''access'' = None"
proof -
  let ?L = "two_token_lib ex_access_neg_ttl ex_refresh"
  have d1: "jwt_decode ?L 100 ''garbage'' = Inl JWTError"
    by (simp add: two_token_lib_def)
  have d2: "jwt_decode ?L 100 ''refresh.jwt'' = Inr ex_refresh"
    by (simp add: two_token_lib_def)
  have d3: "jwt_decode ?L 100 ''access.jwt'' =
      Inr (access_claims settings0 100 ''u1'' ''a@b.c'' [''user''] [] (Some (- 1)))"
    by (simp add: two_token_lib_def ex_access_neg_ttl_def)
  have t2: "p_type ex_refresh \<noteq> Some ''access''"
    by (simp add: ex_claims_defs)
  note r1 = verify_token_rejects [of ?L 100 "''garbage''" JWTError "''access''"]
  note r2 = verify_token_rejects [of ?L 100 "''refresh.jwt''" _ "''access''" ex_refresh]
  note r3 = verify_token_rejects [of ?L 100 "''access.jwt''" _ _ _ settings0 100 "''u1''"
      "''a@b.c''" "[''user'']" "[]" "Some (- 1)" _ "- 1"]
  from d1 r1 have c1: "verify_token ?L 100 ''garbage'' ''access'' = None" by blast
  from d2 t2 r2 have c2: "verify_token ?L 100 ''refresh.jwt'' ''access'' = None" by blast
  from d3 r3 have c3: "verify_token ?L 100 ''access.jwt'' ''refresh'' = None" by blast
  from d3 r3 have c4: "verify_token ?L 100 ''access.jwt'' ''access'' = None" by simp
  from d1 d2 d3 t2 c1 c2 c3 c4 show ?thesis by simp
qed




section \<open>Properties of the rate limiter\<close>

lemma zrange_first_Min:
  "zrange_first z = (if z = [] then None else Some (Min (set z)))"
proof (induction z)
  case Nil
  then show ?case by simp
next
  case (Cons x xs)
  then show ?case by (cases "xs = []") (simp_all add: min_def)
qed

lemma zadd_ne: "zadd z s \<noteq> []"
  by (cases z) (simp_all add: zadd_def)

lemmas ex_limiter_defs =
  check_rate_limit_def ex_limiter_def ex_redis_def ex_redis_after_def pipeline_execute_def
  live_def zremrangebyscore_def zcard_def zadd_def py_int_def on_store_exception_def Let_def

text \<open>
  C5 (as stated, refuted). With limit 1 and window 60, a bucket holding the timestamp 0
  and a check at time 1: the request is rejected and the bucket holds 0 and 1 afterwards,
  so the rejected request was inserted. A check at time 60 on the same bucket is
  admitted: the entry at exactly \<open>now - window\<close> was dropped. With the bucket holding
  0.5, the rejection at time 1 reports the reset time 60, the integer part of 60.5.
\<close>

theorem check_rate_limit_inserts_on_reject:
  "check_rate_limit ex_limiter (ex_redis [0]) 1 None None ''k'' 1 60 =
     ((False, 0, 60), ex_limiter,
      \<lparr>zsets = (\<lambda>k. [])(''k'' := [0, 1]), deadlines = (\<lambda>k. None)(''k'' := Some 61)\<rparr>, []) \<and>
   fst (check_rate_limit ex_limiter (ex_redis [0]) 60 None None ''k'' 1 60) = (True, 0, 120) \<and>
   fst (check_rate_limit ex_limiter (ex_redis [1 / 2]) 1 None None ''k'' 1 60) = (False, 0, 60)"
  by (simp add: ex_limiter_defs)

text \<open>
  C5 (amended). For an enabled limiter, a reachable store and a positive window, a check
  drops the entries whose timestamp lies in \<open>[0, now - window]\<close> (both ends included),
  counts the survivors, and inserts \<open>now\<close> into the bucket and renews the key's expiry
  whether or not the request is admitted. If \<open>count \<ge> limit\<close> the result is
  \<open>allowed = false\<close>, \<open>remaining = 0\<close> and \<open>reset_at\<close> the integer part of the
  oldest entry of the bucket after the insertion plus the window; that entry is the oldest
  surviving one when the limit is at least 1 and no survivor is later than \<open>now\<close>.
  Otherwise the result is \<open>allowed = true\<close>, \<open>remaining = limit - count - 1\<close> and
  \<open>reset_at\<close> the integer part of \<open>now + window\<close>.
\<close>

theorem check_rate_limit_algorithm:
  assumes en: "enabled rl" "has_client rl" and w: "0 < window"
    and run: "check_rate_limit rl r now None None key limit window = (res, rl', r', logs)"
  shows "let survivors = zremrangebyscore (live r now key) 0 (now - of_int window);
             count = int (length survivors)
         in rl' = rl \<and> logs = [] \<and>
            set (zsets r' key) = insert now (set survivors) \<and>
            deadlines r' key = Some (now + of_int window) \<and>
            (if limit \<le> count
             then res = (False, 0, py_int (Min (set (zsets r' key)) + of_int window))
             else res = (True, limit - count - 1, py_int (now + of_int window))) \<and>
            (1 \<le> limit \<and> limit \<le> count \<and> list_all (\<lambda>s. s \<le> now) survivors \<longrightarrow>
               res = (False, 0, py_int (Min (set survivors) + of_int window)))"
proof -
  define sv where "sv = zremrangebyscore (live r now key) 0 (now - of_int window)"
  define pr where "pr = pipeline_execute r now key (now - of_int window) window"
  have cnt: "fst pr = int (length sv)"
    by (simp add: pr_def sv_def pipeline_execute_def Let_def zcard_def)
  have z: "zsets (snd pr) key = zadd sv now"
    by (simp add: pr_def sv_def pipeline_execute_def Let_def)
  have dl: "deadlines (snd pr) key = Some (now + of_int window)"
    by (simp add: pr_def pipeline_execute_def Let_def)
  have lv: "live (snd pr) now key = zadd sv now"
    using w by (simp add: live_def dl z)
  have ne: "zadd sv now \<noteq> []" by (rule zadd_ne)
  have st: "set (zadd sv now) = insert now (set sv)"
    by (auto simp: zadd_def)
  have "check_rate_limit rl r now None None key limit window =
      (if limit \<le> fst pr
       then ((False, 0, py_int (Min (set (zadd sv now)) + of_int window)), rl, snd pr, [])
       else ((True, limit - fst pr - 1, py_int (now + of_int window)), rl, snd pr, []))"
    unfolding check_rate_limit_def Let_def pr_def [symmetric]
    by (simp add: en lv zrange_first_Min ne)
  with run have run': "(if limit \<le> fst pr
       then ((False, 0, py_int (Min (set (zadd sv now)) + of_int window)), rl, snd pr, [])
       else ((True, limit - fst pr - 1, py_int (now + of_int window)), rl, snd pr, []))
      = (res, rl', r', logs)"
    by simp
  have old: "Min (set (zadd sv now)) = Min (set sv)"
    if "1 \<le> limit" "limit \<le> int (length sv)" "list_all (\<lambda>s. s \<le> now) sv"
  proof -
    from that have ne': "set sv \<noteq> {}" by auto
    from that have "\<forall>s\<in>set sv. s \<le> now" by (simp add: list_all_iff)
    with ne' have "Min (set sv) \<le> now" by (meson List.finite_set Min_in)
    have "Min (insert now (set sv)) = min now (Min (set sv))"
      using ne' by (simp add: Min_insert)
    with \<open>Min (set sv) \<le> now\<close> show ?thesis unfolding st by (simp add: min_def)
  qed
  have main: "rl' = rl \<and> logs = [] \<and>
            set (zsets r' key) = insert now (set sv) \<and>
            deadlines r' key = Some (now + of_int window) \<and>
            (if limit \<le> int (length sv)
             then res = (False, 0, py_int (Min (set (zsets r' key)) + of_int window))
             else res = (True, limit - int (length sv) - 1, py_int (now + of_int window))) \<and>
            (1 \<le> limit \<and> limit \<le> int (length sv) \<and> list_all (\<lambda>s. s \<le> now) sv \<longrightarrow>
               res = (False, 0, py_int (Min (set sv) + of_int window)))"
  proof (cases "limit \<le> int (length sv)")
    case True
    with run' cnt have "res = (False, 0, py_int (Min (set (zadd sv now)) + of_int window))"
      and "rl' = rl" and "r' = snd pr" and "logs = []"
      by simp_all
    with True z dl st old show ?thesis by simp
  next
    case False
    with run' cnt have "res = (True, limit - int (length sv) - 1, py_int (now + of_int window))"
      and "rl' = rl" and "r' = snd pr" and "logs = []"
      by simp_all
    with False z dl st show ?thesis by simp
  qed
  then show ?thesis unfolding sv_def Let_def .
qed

theorem check_rate_limit_algorithm_witness:
  "enabled ex_limiter \<and> has_client ex_limiter \<and> (0 :: int) < 60 \<and>
   check_rate_limit ex_limiter (ex_redis [0, 1]) 2 None None ''k'' 2 60 =
     ((False, 0, 60), ex_limiter, ex_redis_after, []) \<and>
   zremrangebyscore (live (ex_redis [0, 1]) 2 ''k'') 0 (2 - of_int 60) = [0, 1] \<and>
   set (zsets ex_redis_after ''k'') = insert 2 (set [0, 1]) \<and>
   deadlines ex_redis_after ''k'' = Some (2 + of_int 60) \<and>
   (2 :: int) \<le> int (length [0, 1 :: real]) \<and>
   (False, 0 :: int, 60 :: int) = (False, 0, py_int (Min (set (zsets ex_redis_after ''k'')) + of_int 60))"
proof -
  have h1: "enabled ex_limiter" and h2: "has_client ex_limiter" and h3: "(0 :: int) < 60"
    by (simp_all add: ex_limiter_def)
  have h4: "check_rate_limit ex_limiter (ex_redis [0, 1]) 2 None None ''k'' 2 60 =
     ((False, 0, 60), ex_limiter, ex_redis_after, [])"
    by (simp add: check_rate_limit_def ex_limiter_def ex_redis_def ex_redis_after_def
        pipeline_execute_def live_def zremrangebyscore_def zcard_def zadd_def py_int_def Let_def)
  have sv: "zremrangebyscore (live (ex_redis [0, 1]) 2 ''k'') 0 (2 - of_int 60) = [0, 1]"
    by (simp add: ex_redis_def live_def zremrangebyscore_def)
  from check_rate_limit_algorithm [OF h1 h2 h3 h4] h1 h2 h3 h4 sv
  show ?thesis by (simp add: Let_def)
qed




section \<open>Properties of the two-factor engine\<close>

lemma first_match_bound: "first_match env code hs = Some i \<Longrightarrow> i < length hs \<and> slot_ok env code (hs ! i)"
proof (induction hs arbitrary: i)
  case Nil
  then show ?case by simp
next
  case (Cons h hs)
  then show ?case by (auto split: if_splits)
qed

lemma first_match_not_null: "first_match env code hs = Some i \<Longrightarrow> hs ! i \<noteq> None"
  using first_match_bound [of env code hs i] by (auto simp: slot_ok_def split: option.splits)

lemma first_match_none_iff: "first_match env code hs = None \<longleftrightarrow> filter (slot_ok env code) hs = []"
  by (induction hs) auto

lemma filter_update_single:
  "first_match env code hs = Some i \<Longrightarrow>
   length (filter (slot_ok env code) (hs[i := None])) = length (filter (slot_ok env code) hs) - 1"
proof (induction hs arbitrary: i)
  case Nil
  then show ?case by simp
next
  case (Cons h hs)
  show ?case
  proof (cases "slot_ok env code h")
    case True
    with Cons.prems have "i = 0" by simp
    with True show ?thesis by (simp add: slot_ok_def)
  next
    case False
    with Cons.prems obtain j where j: "first_match env code hs = Some j" "i = Suc j"
      by auto
    from Cons.IH [OF j(1)] False j(2) show ?thesis by simp
  qed
qed


lemmas toy_defs = toy_crypto_def toy_table_def verify_backup_code_def slot_ok_def
  verify_password_def verify_totp_def ex_user_def

text \<open>
  C6 (as stated, refuted). The stored list holds two hashes of the same code
  \<open>AAAA-BBBB\<close> (the generator draws the ten codes independently). The first
  verification succeeds and nulls slot 0; the second verification of the same code
  succeeds again, on slot 1.
\<close>

theorem backup_code_duplicate_verifies_twice:
  "verify_backup_code toy_crypto (ex_user\<lparr>backup_codes := Some ''d0''\<rparr>) ''AAAA-BBBB'' =
     (True, ex_user\<lparr>backup_codes := Some ''d1'', two_factor_recovery_codes_used := 1\<rparr>) \<and>
   verify_backup_code toy_crypto
       (ex_user\<lparr>backup_codes := Some ''d1'', two_factor_recovery_codes_used := 1\<rparr>)
       ''AAAA-BBBB'' =
     (True, ex_user\<lparr>backup_codes := Some ''c2'', two_factor_recovery_codes_used := 2\<rparr>)"
  by (simp add: toy_defs)

text \<open>
  C6 (amended). When a backup code verifies, the slot it matched (the first unused slot
  whose hash verifies the code) is set to null and \<open>recovery_codes_used\<close> is
  incremented in the same operation; that slot is never matched again, whatever code is
  presented; and the next attempt with the same code succeeds exactly when more than one
  unused slot matched the code, so it returns false when the matched slot was the only
  one.
\<close>

theorem backup_code_single_use:
  assumes st: "backup_codes u = Some stored" "stored \<noteq> []"
    and dec: "cipher_decrypt env stored = Some hs"
    and fm: "first_match env code hs = Some i"
    and enc_ne: "cipher_encrypt env (hs[i := None]) \<noteq> []"
    and rt: "cipher_decrypt env (cipher_encrypt env (hs[i := None])) = Some (hs[i := None])"
  shows "let u' = u\<lparr>backup_codes := Some (cipher_encrypt env (hs[i := None])),
                     two_factor_recovery_codes_used := two_factor_recovery_codes_used u + 1\<rparr>
         in verify_backup_code env u code = (True, u') \<and>
            i < length hs \<and> (hs[i := None]) ! i = None \<and>
            first_match env code' (hs[i := None]) \<noteq> Some i \<and>
            fst (verify_backup_code env u' code) =
              (1 < length (filter (slot_ok env code) hs))"
proof -
  define u' where "u' = u\<lparr>backup_codes := Some (cipher_encrypt env (hs[i := None])),
                     two_factor_recovery_codes_used := two_factor_recovery_codes_used u + 1\<rparr>"
  have a: "verify_backup_code env u code = (True, u')"
    using st dec fm by (simp add: verify_backup_code_def u'_def)
  from first_match_bound [OF fm] have b: "i < length hs" by simp
  then have c: "(hs[i := None]) ! i = None" by simp
  have d: "first_match env code' (hs[i := None]) \<noteq> Some i"
    using first_match_not_null [of env code' "hs[i := None]" i] c by auto
  have e: "fst (verify_backup_code env u' code) = (first_match env code (hs[i := None]) \<noteq> None)"
    using enc_ne rt by (simp add: verify_backup_code_def u'_def split: option.splits)
  have "(first_match env code (hs[i := None]) \<noteq> None) =
      (length (filter (slot_ok env code) (hs[i := None])) \<noteq> 0)"
    by (simp add: first_match_none_iff)
  also have "\<dots> = (1 < length (filter (slot_ok env code) hs))"
    using filter_update_single [OF fm] by auto
  finally have f: "fst (verify_backup_code env u' code) =
      (1 < length (filter (slot_ok env code) hs))"
    using e by simp
  from a b c d f show ?thesis unfolding u'_def Let_def by simp
qed

theorem backup_code_single_use_witness:
  "backup_codes ex_user = Some ''c0'' \<and> ''c0'' \<noteq> [] \<and>
   cipher_decrypt toy_crypto ''c0'' = Some [Some ''$1$AAAA-BBBB'', Some ''$2$CCCC-DDDD''] \<and>
   first_match toy_crypto ''AAAA-BBBB'' [Some ''$1$AAAA-BBBB'', Some ''$2$CCCC-DDDD''] = Some 0 \<and>
   cipher_encrypt toy_crypto [None, Some ''$2$CCCC-DDDD''] = ''c1'' \<and>
   cipher_decrypt toy_crypto ''c1'' = Some [None, Some ''$2$CCCC-DDDD''] \<and>
   verify_backup_code toy_crypto ex_user ''AAAA-BBBB'' =
     (True, ex_user\<lparr>backup_codes := Some ''c1'', two_factor_recovery_codes_used := 1\<rparr>) \<and>
   fst (verify_backup_code toy_crypto
          (ex_user\<lparr>backup_codes := Some ''c1'', two_factor_recovery_codes_used := 1\<rparr>)
          ''AAAA-BBBB'') = False"
proof -
  let ?hs = "[Some ''$1$AAAA-BBBB'', Some ''$2$CCCC-DDDD'']"
  have h1: "backup_codes ex_user = Some ''c0''" by (simp add: ex_user_def)
  have h2: "''c0'' \<noteq> []" by simp
  have h3: "cipher_decrypt toy_crypto ''c0'' = Some ?hs"
    by (simp add: toy_crypto_def toy_table_def)
  have h4: "first_match toy_crypto ''AAAA-BBBB'' ?hs = Some 0"
    by (simp add: toy_crypto_def slot_ok_def verify_password_def)
  have e1: "cipher_encrypt toy_crypto [None, Some ''$2$CCCC-DDDD''] = ''c1''"
    by (simp add: toy_crypto_def toy_table_def)
  have d1: "cipher_decrypt toy_crypto ''c1'' = Some [None, Some ''$2$CCCC-DDDD'']"
    by (simp add: toy_crypto_def toy_table_def)
  have h5: "cipher_encrypt toy_crypto (?hs[0 := None]) \<noteq> []" using e1 by simp
  have h6: "cipher_decrypt toy_crypto (cipher_encrypt toy_crypto (?hs[0 := None])) =
      Some (?hs[0 := None])"
    using e1 d1 by simp
  have used: "two_factor_recovery_codes_used ex_user = 0" by (simp add: ex_user_def)
  have n: "length (filter (slot_ok toy_crypto ''AAAA-BBBB'') ?hs) = 1"
    by (simp add: toy_crypto_def slot_ok_def verify_password_def)
  from backup_code_single_use [OF h1 h2 h3 h4 h5 h6, of "''AAAA-BBBB''"] h1 h2 h3 h4 e1 d1 used n
  show ?thesis by (simp add: Let_def)
qed

text \<open>
  C3 (the code at a failing input). Two-factor authentication was enabled at time 0.
  Five wrong codes at times 1000 to 1004 bring the counter to 5. The sixth attempt at
  time 1005 is not rejected: the lockout ends at \<open>two_factor_verified_at + 300 = 300\<close>,
  so the counter is reset, a wrong code is counted as failure 1 and the right code is
  accepted. The lockout error appears only before time 300, whenever the failures
  happened.
\<close>

theorem two_factor_lockout_not_enforced:
  "two_factor_enabled ex_user \<and> two_factor_verified_at ex_user = Some 0 \<and>
   verify_2fa_code toy_crypto 1000 ex_user ''000000'' False =
     Inr (False, ex_user\<lparr>failed_2fa_attempts := 1\<rparr>) \<and>
   verify_2fa_code toy_crypto 1001 (ex_user\<lparr>failed_2fa_attempts := 1\<rparr>) ''000000'' False =
     Inr (False, ex_user\<lparr>failed_2fa_attempts := 2\<rparr>) \<and>
   verify_2fa_code toy_crypto 1002 (ex_user\<lparr>failed_2fa_attempts := 2\<rparr>) ''000000'' False =
     Inr (False, ex_user\<lparr>failed_2fa_attempts := 3\<rparr>) \<and>
   verify_2fa_code toy_crypto 1003 (ex_user\<lparr>failed_2fa_attempts := 3\<rparr>) ''000000'' False =
     Inr (False, ex_user\<lparr>failed_2fa_attempts := 4\<rparr>) \<and>
   verify_2fa_code toy_crypto 1004 (ex_user\<lparr>failed_2fa_attempts := 4\<rparr>) ''000000'' False =
     Inr (False, ex_user\<lparr>failed_2fa_attempts := 5\<rparr>) \<and>
   verify_2fa_code toy_crypto 1005 (ex_user\<lparr>failed_2fa_attempts := 5\<rparr>) ''000000'' False =
     Inr (False, ex_user\<lparr>failed_2fa_attempts := 1\<rparr>) \<and>
   verify_2fa_code toy_crypto 1005 (ex_user\<lparr>failed_2fa_attempts := 5\<rparr>) ''123456'' False =
     Inr (True, ex_user\<lparr>failed_2fa_attempts := 0\<rparr>) \<and>
   verify_2fa_code toy_crypto 299 (ex_user\<lparr>failed_2fa_attempts := 5\<rparr>) ''123456'' False =
     Inl (TwoFactorError ''Too many failed attempts. Try again after'' (Some 300))"
  by (simp add: verify_2fa_code_def lockout_check_def MAX_2FA_ATTEMPTS_def
      LOCKOUT_DURATION_def toy_defs Let_def)

section \<open>Properties of the session orchestrator\<close>

lemmas auth_defs = authenticate_user_def authenticate_try_def scalar_one_or_none_def
  handle_failed_login_def update_users_def is_locked_def falsy_def max_attempts_def
  lockout_duration_def create_access_token_def create_refresh_token_def two_token_lib_def
  access_claims_def refresh_claims_def access_expire_def refresh_expire_def settings0_def
  py_int_def ex_db_def ex_login_lib_def ex_login_response_def ex_db_after_login_def
  ex_locked_user_def Let_def

text \<open>
  C1 (the code at a failing input). The account has two-factor authentication enabled.
  A login with the right password returns the access and refresh tokens, with
  \<open>requires_2fa = False\<close> and no temporary token, and the access token verifies.
\<close>

theorem login_with_two_factor_issues_tokens:
  "two_factor_enabled ex_user \<and>
   authenticate_user settings0 ex_login_lib toy_crypto 1000 ''jti-1'' ex_db ''a@b.c''
       ''Passw0rd!'' = (Inr ex_login_response, ex_db_after_login) \<and>
   requires_2fa ex_login_response = False \<and> temp_token ex_login_response = None \<and>
   verify_token ex_login_lib 1000 (access_token ex_login_response) ''access'' \<noteq> None"
  by (simp add: auth_defs toy_defs verify_token_def)

lemma login_persists_no_refresh_record:
  "refresh_tokens (snd (authenticate_user st lib env now token_id d email password)) =
     refresh_tokens d"
  by (auto simp: authenticate_user_def authenticate_try_def update_users_def Let_def
      split: sum.splits option.splits exn.splits prod.splits if_splits)

text \<open>
  C2 (the code at a failing input). No call of \<open>authenticate_user\<close> changes the table
  of refresh records. The login at time 1000 returns a refresh token and stores no
  record. One second later the token itself verifies, and \<open>refresh_access_token\<close>
  rejects it because no record is found.
\<close>

theorem login_refresh_token_rejected:
  "refresh_tokens (snd (authenticate_user st lib env now token_id d email password)) =
     refresh_tokens d \<and>
   authenticate_user settings0 ex_login_lib toy_crypto 1000 ''jti-1'' ex_db ''a@b.c''
       ''Passw0rd!'' = (Inr ex_login_response, ex_db_after_login) \<and>
   refresh_tokens ex_db_after_login = [] \<and>
   verify_token ex_login_lib 1001 (refresh_token ex_login_response) ''refresh'' \<noteq> None \<and>
   refresh_access_token settings0 ex_login_lib 1001 ex_db_after_login
       (refresh_token ex_login_response) =
     (Inl (AuthenticationError ''Refresh token is invalid or expired''), ex_db_after_login)"
proof -
  have "authenticate_user settings0 ex_login_lib toy_crypto 1000 ''jti-1'' ex_db ''a@b.c''
       ''Passw0rd!'' = (Inr ex_login_response, ex_db_after_login) \<and>
   refresh_tokens ex_db_after_login = [] \<and>
   verify_token ex_login_lib 1001 (refresh_token ex_login_response) ''refresh'' \<noteq> None \<and>
   refresh_access_token settings0 ex_login_lib 1001 ex_db_after_login
       (refresh_token ex_login_response) =
     (Inl (AuthenticationError ''Refresh token is invalid or expired''), ex_db_after_login)"
    by (simp add: auth_defs toy_defs verify_token_def refresh_access_token_def refresh_try_def)
  with login_persists_no_refresh_record [of st lib env now token_id d email password]
  show ?thesis by blast
qed

text \<open>
  C4 (the code at a failing input). The fifth recorded failure, at time 0, locks the
  account until 1800; \<open>is_locked\<close> is true at 1799 and false at 1800, and the counter
  is still 5. One more failure at 1801 locks the account again, until 3601. Inside
  \<open>authenticate_user\<close> the statement that records a failure is sent and then rolled
  back with the transaction: after a login with a wrong password the database is as it
  was before.
\<close>

theorem lockout_counter_survives_expiry:
  "handle_failed_login 0 (ex_db\<lparr>users := [ex_user\<lparr>failed_login_attempts := 4\<rparr>]\<rparr>)
       (Some (ex_user\<lparr>failed_login_attempts := 4\<rparr>)) =
     ex_db\<lparr>users := [ex_locked_user]\<rparr> \<and>
   is_locked 1799 ex_locked_user \<and> \<not> is_locked 1800 ex_locked_user \<and>
   failed_login_attempts ex_locked_user = 5 \<and>
   handle_failed_login 1801 (ex_db\<lparr>users := [ex_locked_user]\<rparr>) (Some ex_locked_user) =
     ex_db\<lparr>users := [ex_locked_user\<lparr>failed_login_attempts := 6,
                                     locked_until := Some 3601\<rparr>]\<rparr> \<and>
   authenticate_try settings0 ex_login_lib toy_crypto 1801 ''jti-1''
       (ex_db\<lparr>users := [ex_locked_user]\<rparr>) ''a@b.c'' ''wrong'' =
     (Inl (AuthenticationError ''Invalid email or password''),
      ex_db\<lparr>users := [ex_locked_user\<lparr>failed_login_attempts := 6,
                                      locked_until := Some 3601\<rparr>]\<rparr>) \<and>
   authenticate_user settings0 ex_login_lib toy_crypto 1801 ''jti-1''
       (ex_db\<lparr>users := [ex_locked_user]\<rparr>) ''a@b.c'' ''wrong'' =
     (Inl (AuthenticationError ''Invalid email or password''),
      ex_db\<lparr>users := [ex_locked_user]\<rparr>)"
  by (simp add: auth_defs toy_defs)

lemma verify_token_bad:
  assumes "jwt_decode lib now token = Inl e \<or>
     (jwt_decode lib now token = Inr pl \<and>
      (falsy (p_sub pl) \<or> falsy (p_type pl) \<or> p_type pl \<noteq> Some k \<or> p_exp pl = None \<or>
       p_iat pl = None \<or> (\<exists>x. p_exp pl = Some x \<and> now > of_int x)))"
  shows "verify_token lib now token k = None"
  using assms by (auto simp: verify_token_def Let_def falsy_def split: option.splits)

text \<open>
  C10. If the access token fails verification (the library rejects it, a required field
  is missing or empty, the kind is not access, or the clock is past \<open>exp\<close>),
  \<open>logout_user\<close> returns \<open>False\<close> and the database is unchanged: no refresh record
  is revoked and no session is ended.
\<close>

theorem logout_invalid_token_no_effect:
  "(verify_token lib now access_tok ''access'' = None \<longrightarrow>
      logout_user lib now d access_tok = (False, d)) \<and>
   (jwt_decode lib now access_tok = Inl e \<or>
    (jwt_decode lib now access_tok = Inr pl \<and>
      (falsy (p_sub pl) \<or> falsy (p_type pl) \<or> p_type pl \<noteq> Some ''access'' \<or>
       p_exp pl = None \<or> p_iat pl = None \<or> (\<exists>x. p_exp pl = Some x \<and> now > of_int x)))
    \<longrightarrow> logout_user lib now d access_tok = (False, d))"
proof (intro conjI impI)
  assume "verify_token lib now access_tok ''access'' = None"
  then show "logout_user lib now d access_tok = (False, d)"
    by (simp add: logout_user_def)
next
  assume "jwt_decode lib now access_tok = Inl e \<or>
    (jwt_decode lib now access_tok = Inr pl \<and>
      (falsy (p_sub pl) \<or> falsy (p_type pl) \<or> p_type pl \<noteq> Some ''access'' \<or>
       p_exp pl = None \<or> p_iat pl = None \<or> (\<exists>x. p_exp pl = Some x \<and> now > of_int x)))"
  then have "verify_token lib now access_tok ''access'' = None"
    by (rule verify_token_bad)
  then show "logout_user lib now d access_tok = (False, d)"
    by (simp add: logout_user_def)
qed

theorem logout_invalid_token_no_effect_witness:
  "verify_token ex_login_lib 2000 ''access.jwt'' ''access'' = None \<and>
   jwt_decode ex_login_lib 2000 ''access.jwt'' =
     Inr (access_claims settings0 1000 ''u1'' ''a@b.c'' [''user''] [] None) \<and>
   p_exp (access_claims settings0 1000 ''u1'' ''a@b.c'' [''user''] [] None) = Some 1900 \<and>
   (2000 :: real) > of_int 1900 \<and>
   logout_user ex_login_lib 2000 ex_session_db ''access.jwt'' = (False, ex_session_db) \<and>
   jwt_decode ex_login_lib 2000 ''garbage'' = Inl JWTError \<and>
   logout_user ex_login_lib 2000 ex_session_db ''garbage'' = (False, ex_session_db) \<and>
   fst (logout_user ex_login_lib 1000 ex_session_db ''access.jwt'') = True"
proof -
  let ?pl = "access_claims settings0 1000 ''u1'' ''a@b.c'' [''user''] [] None"
  have h1: "jwt_decode ex_login_lib 2000 ''access.jwt'' = Inr ?pl"
    by (simp add: ex_login_lib_def two_token_lib_def)
  have h2: "p_exp ?pl = Some 1900"
    by (simp add: access_claims_def access_expire_def settings0_def py_int_def)
  have h3: "(2000 :: real) > of_int 1900" by simp
  have h4: "jwt_decode ex_login_lib 2000 ''garbage'' = Inl JWTError"
    by (simp add: ex_login_lib_def two_token_lib_def)
  have v: "verify_token ex_login_lib 2000 ''access.jwt'' ''access'' = None"
    using h1 h2 by (simp add: verify_token_def falsy_def access_claims_def)
  note a = logout_invalid_token_no_effect [where lib = ex_login_lib and now = 2000
      and access_tok = "''access.jwt''" and d = ex_session_db and pl = ?pl]
  note b = logout_invalid_token_no_effect [where lib = ex_login_lib and now = 2000
      and access_tok = "''garbage''" and d = ex_session_db and e = JWTError]
  from a v have c1: "logout_user ex_login_lib 2000 ex_session_db ''access.jwt'' =
      (False, ex_session_db)" by blast
  from b h4 have c2: "logout_user ex_login_lib 2000 ex_session_db ''garbage'' =
      (False, ex_session_db)" by blast
  have c3: "fst (logout_user ex_login_lib 1000 ex_session_db ''access.jwt'') = True"
    by (simp add: logout_user_def verify_token_def falsy_def ex_login_lib_def
        two_token_lib_def access_claims_def access_expire_def settings0_def py_int_def)
  from v h1 h2 h3 h4 c1 c2 c3 show ?thesis by blast
qed

end
